theory Spec2Isabelle
  imports Main "HOL-Library.Sublist" "HOL-Library.Char_ord"
begin

section \<open>OKProxy: a shallow embedding of main.go\<close>

text \<open>
  The package wraps \<^verbatim>\<open>httputil.NewSingleHostReverseProxy\<close> in two handlers. Go strings
  and byte slices are byte sequences, here \<^typ>\<open>string\<close>. Every function of main.go is
  a function on an explicit state: the proxy instance, the request the handler was given,
  and the list of calls made to the collaborators (the error handler, the forwarder and the
  reverse-proxy primitive), in order.
\<close>

subsection \<open>Errors\<close>

text \<open>
  An \<^verbatim>\<open>error\<close> value of the program: \<^verbatim>\<open>errors.New(text)\<close>, the errors of
  \<^verbatim>\<open>encoding/json\<close> (a \<^verbatim>\<open>SyntaxError\<close> with its message and byte offset: either
  ``invalid character c'' followed by a context, or ``unexpected end of JSON input''; an
  \<^verbatim>\<open>UnmarshalTypeError\<close> with the kind of JSON value that was found), and the errors
  of the two library calls the model takes as given (reading the body, \<^verbatim>\<open>url.Parse\<close>).
\<close>

datatype syntax_msg =
    InvalidCharacter char string
  | UnexpectedEnd

datatype error =
    ErrorsNew string
  | SyntaxError syntax_msg nat
  | UnmarshalTypeError string
  | ReadError string
  | URLError string

subsection \<open>Data\<close>

text \<open>\<^verbatim>\<open>type reverseProxy struct { URL string `json:"proxyURL"` }\<close>\<close>

record reverseProxy =
  URL :: string

text \<open>\<^verbatim>\<open>type OKProxy struct { proxy ProxyReverser }\<close>, with the one implementation of the
  interface that main.go has, \<^verbatim>\<open>*reverseProxy\<close>.\<close>

record OKProxy =
  proxy :: reverseProxy

text \<open>The fields of \<^verbatim>\<open>net/url.URL\<close> that main.go reads or writes.\<close>

record url =
  Scheme :: string
  Host :: string
  Path :: string

text \<open>
  \<^verbatim>\<open>http.Header\<close> is \<^verbatim>\<open>map[string][]string\<close>, keyed by canonical header names.
  \<^verbatim>\<open>Get\<close> and \<^verbatim>\<open>Set\<close> canonicalise their key first; the two keys main.go passes,
  \<^verbatim>\<open>"Host"\<close> and \<^verbatim>\<open>"X-Forwarded-Host"\<close>, are in canonical form already, so the key is
  used as it is.
\<close>

type_synonym header = "string \<rightharpoonup> string list"

definition Header_Get :: "header \<Rightarrow> string \<Rightarrow> string" where
  "Header_Get h key = (case h key of None \<Rightarrow> [] | Some [] \<Rightarrow> [] | Some (v # _) \<Rightarrow> v)"

definition Header_Set :: "header \<Rightarrow> string \<Rightarrow> string \<Rightarrow> header" where
  "Header_Set h key v = h(key \<mapsto> [v])"

text \<open>
  A request body is a one-shot reader: the bytes not yet read, and the error (if any) the
  transport reports once they are consumed instead of end-of-file.
\<close>

record body =
  unread :: string
  fault :: "error option"

text \<open>
  \<^verbatim>\<open>ioutil.ReadAll\<close> drains the reader: it returns what it read together with the
  reader's error (\<^verbatim>\<open>nil\<close> at end-of-file), and leaves nothing unread.
\<close>

definition ioutil_ReadAll :: "body \<Rightarrow> (string \<times> error option) \<times> body" where
  "ioutil_ReadAll b = ((unread b, fault b), b\<lparr>unread := []\<rparr>)"

text \<open>\<^verbatim>\<open>ioutil.NopCloser(bytes.NewBuffer(data))\<close>: a fresh reader over \<open>data\<close>.\<close>

definition NopCloser_NewBuffer :: "string \<Rightarrow> body" where
  "NopCloser_NewBuffer data = \<lparr>unread = data, fault = None\<rparr>"

text \<open>
  The fields of \<^verbatim>\<open>http.Request\<close> that main.go touches, for a request as the HTTP
  server hands it to a handler (\<^verbatim>\<open>URL\<close>, \<^verbatim>\<open>Header\<close> and \<^verbatim>\<open>Body\<close> are never nil).
\<close>

record request =
  r_URL :: url
  r_Header :: header
  r_Host :: string
  r_Body :: body

text \<open>
  The calls to collaborators. \<open>ServerErrorHandler r err\<close> is a call of the method of that
  name of the \<^verbatim>\<open>ErrorHandler\<close>; \<open>Forwarder r\<close> is an entry into \<^verbatim>\<open>serveReverseProxy\<close>
  (what the mock of okproxy\_test.go appends to its \<^verbatim>\<open>calls\<close>); \<open>ServeHTTP target r\<close> is
  the call \<^verbatim>\<open>proxy.ServeHTTP(w, r)\<close> on the reverse proxy built for \<open>target\<close>. Each
  carries the request as it was when the call was made (\<open>call_request\<close>), which need
  not be the request as the callee leaves it. The response writer is only ever passed
  through to a collaborator, and is left out.
\<close>

datatype call =
    is_ServerErrorHandler: ServerErrorHandler (call_request: request) (call_error: error)
  | is_Forwarder: Forwarder (call_request: request)
  | is_ServeHTTP: ServeHTTP (call_target: url) (call_request: request)

record state =
  st_p :: OKProxy
  st_r :: request
  calls :: "call list"

subsection \<open>Library functions of \<^verbatim>\<open>strings\<close>\<close>

definition strings_HasPrefix :: "string \<Rightarrow> string \<Rightarrow> bool" where
  "strings_HasPrefix s pre \<longleftrightarrow> length s \<ge> length pre \<and> take (length pre) s = pre"

definition strings_TrimPrefix :: "string \<Rightarrow> string \<Rightarrow> string" where
  "strings_TrimPrefix s pre = (if strings_HasPrefix s pre then drop (length pre) s else s)"

section \<open>The library call \<^verbatim>\<open>json.Unmarshal(body, rp)\<close>\<close>

text \<open>
  \<^verbatim>\<open>decodeURLFromBody\<close> decodes the body with \<^verbatim>\<open>encoding/json\<close> into the
  \<^verbatim>\<open>reverseProxy\<close> struct. \<^verbatim>\<open>Unmarshal\<close> works in two passes: \<^verbatim>\<open>checkValid\<close> runs
  the scanner over all the bytes and returns its syntax error before anything is stored;
  only then is the value decoded and stored into the struct.
\<close>

subsection \<open>The scanner (\<^verbatim>\<open>encoding/json/scanner.go\<close>)\<close>

text \<open>
  The scanner is a state machine: its field \<^verbatim>\<open>step\<close> (here \<open>scan_step\<close>) holds the state function to apply
  to the next byte. \<open>step_fn\<close> names the state functions (\<open>BeginValue\<close> for
  \<^verbatim>\<open>stateBeginValue\<close>, \<open>Num0\<close> and \<open>Num1\<close> for \<^verbatim>\<open>state0\<close> and \<^verbatim>\<open>state1\<close>,
  \<open>LitTr\<close> for \<^verbatim>\<open>stateTr\<close>, and so on), and \<open>run_step\<close> maps a name to its function.
  \<^verbatim>\<open>parseState\<close> is the stack of open composite values, innermost first.
\<close>

datatype step_fn =
    BeginValueOrEmpty | BeginValue | BeginStringOrEmpty | BeginString
  | EndValue | EndTop
  | InString | InStringEsc | InStringEscU | InStringEscU1 | InStringEscU12 | InStringEscU123
  | Neg | Num1 | Num0 | Dot | Dot0 | Exp | ESign | E0
  | LitT | LitTr | LitTru | LitF | LitFa | LitFal | LitFals | LitN | LitNu | LitNul
  | Error

datatype parse_state = parseObjectKey | parseObjectValue | parseArrayValue

datatype opcode =
    scanContinue | scanBeginLiteral | scanBeginObject | scanObjectKey | scanObjectValue
  | scanEndObject | scanBeginArray | scanArrayValue | scanEndArray | scanSkipSpace
  | scanEnd | scanError

record scanner =
  scan_step :: step_fn
  scan_endTop :: bool
  scan_parseState :: "parse_state list"
  scan_err :: "error option"
  scan_bytes :: nat

definition maxNestingDepth :: nat where
  "maxNestingDepth = 10000"

definition isSpace :: "char \<Rightarrow> bool" where
  "isSpace c \<longleftrightarrow> c = CHR '' '' \<or> c = CHR 0x09 \<or> c = CHR 0x0D \<or> c = CHR 0x0A"

definition isDigit :: "char \<Rightarrow> bool" where
  "isDigit c \<longleftrightarrow> CHR ''0'' \<le> c \<and> c \<le> CHR ''9''"

definition isDigit19 :: "char \<Rightarrow> bool" where
  "isDigit19 c \<longleftrightarrow> CHR ''1'' \<le> c \<and> c \<le> CHR ''9''"

definition isHex :: "char \<Rightarrow> bool" where
  "isHex c \<longleftrightarrow> CHR ''0'' \<le> c \<and> c \<le> CHR ''9'' \<or> CHR ''a'' \<le> c \<and> c \<le> CHR ''f''
     \<or> CHR ''A'' \<le> c \<and> c \<le> CHR ''F''"

text \<open>\<^verbatim>\<open>s.error(c, context)\<close>: record the syntax error at the current byte count.\<close>

definition scanner_error :: "scanner \<Rightarrow> char \<Rightarrow> string \<Rightarrow> opcode \<times> scanner" where
  "scanner_error s c context =
     (scanError, s\<lparr>scan_step := Error, scan_err := Some (SyntaxError (InvalidCharacter c context) (scan_bytes s))\<rparr>)"

text \<open>The two endings shared by most state functions: \<^verbatim>\<open>s.step = st; return scanContinue\<close>
  and \<^verbatim>\<open>s.step = st; return scanBeginLiteral\<close>.\<close>

definition continue_in :: "step_fn \<Rightarrow> scanner \<Rightarrow> opcode \<times> scanner" where
  "continue_in st s = (scanContinue, s\<lparr>scan_step := st\<rparr>)"

definition begin_literal :: "step_fn \<Rightarrow> scanner \<Rightarrow> opcode \<times> scanner" where
  "begin_literal st s = (scanBeginLiteral, s\<lparr>scan_step := st\<rparr>)"

definition pushParseState :: "scanner \<Rightarrow> char \<Rightarrow> parse_state \<Rightarrow> opcode \<Rightarrow> opcode \<times> scanner" where
  "pushParseState s c newParseState successState =
     (let s1 = s\<lparr>scan_parseState := newParseState # scan_parseState s\<rparr> in
      if length (scan_parseState s1) \<le> maxNestingDepth then (successState, s1)
      else scanner_error s1 c ''exceeded max depth'')"

definition popParseState :: "scanner \<Rightarrow> scanner" where
  "popParseState s =
     (let s1 = s\<lparr>scan_parseState := tl (scan_parseState s)\<rparr> in
      if scan_parseState s1 = [] then s1\<lparr>scan_step := EndTop, scan_endTop := True\<rparr>
      else s1\<lparr>scan_step := EndValue\<rparr>)"

text \<open>\<^verbatim>\<open>stateEndTop\<close> records the error for a non-space byte after the top-level value, but
  returns \<^verbatim>\<open>scanEnd\<close>; the error surfaces at the next step or at the end of input.\<close>

definition stateEndTop :: "scanner \<Rightarrow> char \<Rightarrow> opcode \<times> scanner" where
  "stateEndTop s c =
     (if \<not> isSpace c then (scanEnd, snd (scanner_error s c ''after top-level value''))
      else (scanEnd, s))"

definition stateEndValue :: "scanner \<Rightarrow> char \<Rightarrow> opcode \<times> scanner" where
  "stateEndValue s c =
     (case scan_parseState s of
        [] \<Rightarrow> stateEndTop (s\<lparr>scan_step := EndTop, scan_endTop := True\<rparr>) c
      | ps # rest \<Rightarrow>
          if isSpace c then (scanSkipSpace, s\<lparr>scan_step := EndValue\<rparr>)
          else (case ps of
            parseObjectKey \<Rightarrow>
              if c = CHR '':''
              then (scanObjectKey, s\<lparr>scan_parseState := parseObjectValue # rest, scan_step := BeginValue\<rparr>)
              else scanner_error s c ''after object key''
          | parseObjectValue \<Rightarrow>
              if c = CHR '',''
              then (scanObjectValue, s\<lparr>scan_parseState := parseObjectKey # rest, scan_step := BeginString\<rparr>)
              else if c = CHR ''}'' then (scanEndObject, popParseState s)
              else scanner_error s c ''after object key:value pair''
          | parseArrayValue \<Rightarrow>
              if c = CHR '','' then (scanArrayValue, s\<lparr>scan_step := BeginValue\<rparr>)
              else if c = CHR '']'' then (scanEndArray, popParseState s)
              else scanner_error s c ''after array element''))"

definition stateBeginValue :: "scanner \<Rightarrow> char \<Rightarrow> opcode \<times> scanner" where
  "stateBeginValue s c =
     (if isSpace c then (scanSkipSpace, s)
      else if c = CHR ''{''
        then pushParseState (s\<lparr>scan_step := BeginStringOrEmpty\<rparr>) c parseObjectKey scanBeginObject
      else if c = CHR ''[''
        then pushParseState (s\<lparr>scan_step := BeginValueOrEmpty\<rparr>) c parseArrayValue scanBeginArray
      else if c = CHR 0x22 then begin_literal InString s
      else if c = CHR ''-'' then begin_literal Neg s
      else if c = CHR ''0'' then begin_literal Num0 s
      else if c = CHR ''t'' then begin_literal LitT s
      else if c = CHR ''f'' then begin_literal LitF s
      else if c = CHR ''n'' then begin_literal LitN s
      else if isDigit19 c then begin_literal Num1 s
      else scanner_error s c ''looking for beginning of value'')"

definition stateBeginValueOrEmpty :: "scanner \<Rightarrow> char \<Rightarrow> opcode \<times> scanner" where
  "stateBeginValueOrEmpty s c =
     (if isSpace c then (scanSkipSpace, s)
      else if c = CHR '']'' then stateEndValue s c
      else stateBeginValue s c)"

definition stateBeginString :: "scanner \<Rightarrow> char \<Rightarrow> opcode \<times> scanner" where
  "stateBeginString s c =
     (if isSpace c then (scanSkipSpace, s)
      else if c = CHR 0x22 then begin_literal InString s
      else scanner_error s c ''looking for beginning of object key string'')"

definition stateBeginStringOrEmpty :: "scanner \<Rightarrow> char \<Rightarrow> opcode \<times> scanner" where
  "stateBeginStringOrEmpty s c =
     (if isSpace c then (scanSkipSpace, s)
      else if c = CHR ''}''
        then stateEndValue (s\<lparr>scan_parseState := parseObjectValue # tl (scan_parseState s)\<rparr>) c
      else stateBeginString s c)"

definition stateInString :: "scanner \<Rightarrow> char \<Rightarrow> opcode \<times> scanner" where
  "stateInString s c =
     (if c = CHR 0x22 then continue_in EndValue s
      else if c = CHR 0x5C then continue_in InStringEsc s
      else if c < CHR 0x20 then scanner_error s c ''in string literal''
      else (scanContinue, s))"

definition stateInStringEsc :: "scanner \<Rightarrow> char \<Rightarrow> opcode \<times> scanner" where
  "stateInStringEsc s c =
     (if c \<in> set [CHR ''b'', CHR ''f'', CHR ''n'', CHR ''r'', CHR ''t'', CHR 0x5C, CHR ''/'', CHR 0x22]
        then continue_in InString s
      else if c = CHR ''u'' then continue_in InStringEscU s
      else scanner_error s c ''in string escape code'')"

text \<open>\<^verbatim>\<open>stateInStringEscU\<close>, \<^verbatim>\<open>...U1\<close>, \<^verbatim>\<open>...U12\<close> and \<^verbatim>\<open>...U123\<close> differ only in
  the state they continue in.\<close>

definition stateInStringEscHex :: "step_fn \<Rightarrow> scanner \<Rightarrow> char \<Rightarrow> opcode \<times> scanner" where
  "stateInStringEscHex next s c =
     (if isHex c then continue_in next s
      else scanner_error s c (''in '' @ [CHR 0x5C] @ ''u hexadecimal character escape''))"

definition state0 :: "scanner \<Rightarrow> char \<Rightarrow> opcode \<times> scanner" where
  "state0 s c =
     (if c = CHR ''.'' then continue_in Dot s
      else if c = CHR ''e'' \<or> c = CHR ''E'' then continue_in Exp s
      else stateEndValue s c)"

definition state1 :: "scanner \<Rightarrow> char \<Rightarrow> opcode \<times> scanner" where
  "state1 s c = (if isDigit c then continue_in Num1 s else state0 s c)"

definition stateNeg :: "scanner \<Rightarrow> char \<Rightarrow> opcode \<times> scanner" where
  "stateNeg s c =
     (if c = CHR ''0'' then continue_in Num0 s
      else if isDigit19 c then continue_in Num1 s
      else scanner_error s c ''in numeric literal'')"

definition stateDot :: "scanner \<Rightarrow> char \<Rightarrow> opcode \<times> scanner" where
  "stateDot s c =
     (if isDigit c then continue_in Dot0 s
      else scanner_error s c ''after decimal point in numeric literal'')"

definition stateDot0 :: "scanner \<Rightarrow> char \<Rightarrow> opcode \<times> scanner" where
  "stateDot0 s c =
     (if isDigit c then (scanContinue, s)
      else if c = CHR ''e'' \<or> c = CHR ''E'' then continue_in Exp s
      else stateEndValue s c)"

definition stateESign :: "scanner \<Rightarrow> char \<Rightarrow> opcode \<times> scanner" where
  "stateESign s c =
     (if isDigit c then continue_in E0 s
      else scanner_error s c ''in exponent of numeric literal'')"

definition stateE :: "scanner \<Rightarrow> char \<Rightarrow> opcode \<times> scanner" where
  "stateE s c =
     (if c = CHR ''+'' \<or> c = CHR ''-'' then continue_in ESign s else stateESign s c)"

definition stateE0 :: "scanner \<Rightarrow> char \<Rightarrow> opcode \<times> scanner" where
  "stateE0 s c = (if isDigit c then (scanContinue, s) else stateEndValue s c)"

text \<open>The states inside \<^verbatim>\<open>true\<close>, \<^verbatim>\<open>false\<close> and \<^verbatim>\<open>null\<close> each expect one byte.\<close>

definition stateLit :: "char \<Rightarrow> step_fn \<Rightarrow> string \<Rightarrow> scanner \<Rightarrow> char \<Rightarrow> opcode \<times> scanner" where
  "stateLit expected next context s c =
     (if c = expected then continue_in next s else scanner_error s c context)"

fun run_step :: "step_fn \<Rightarrow> scanner \<Rightarrow> char \<Rightarrow> opcode \<times> scanner" where
  "run_step BeginValueOrEmpty = stateBeginValueOrEmpty"
| "run_step BeginValue = stateBeginValue"
| "run_step BeginStringOrEmpty = stateBeginStringOrEmpty"
| "run_step BeginString = stateBeginString"
| "run_step EndValue = stateEndValue"
| "run_step EndTop = stateEndTop"
| "run_step InString = stateInString"
| "run_step InStringEsc = stateInStringEsc"
| "run_step InStringEscU = stateInStringEscHex InStringEscU1"
| "run_step InStringEscU1 = stateInStringEscHex InStringEscU12"
| "run_step InStringEscU12 = stateInStringEscHex InStringEscU123"
| "run_step InStringEscU123 = stateInStringEscHex InString"
| "run_step Neg = stateNeg"
| "run_step Num1 = state1"
| "run_step Num0 = state0"
| "run_step Dot = stateDot"
| "run_step Dot0 = stateDot0"
| "run_step Exp = stateE"
| "run_step ESign = stateESign"
| "run_step E0 = stateE0"
| "run_step LitT = stateLit CHR ''r'' LitTr ''in literal true (expecting 'r')''"
| "run_step LitTr = stateLit CHR ''u'' LitTru ''in literal true (expecting 'u')''"
| "run_step LitTru = stateLit CHR ''e'' EndValue ''in literal true (expecting 'e')''"
| "run_step LitF = stateLit CHR ''a'' LitFa ''in literal false (expecting 'a')''"
| "run_step LitFa = stateLit CHR ''l'' LitFal ''in literal false (expecting 'l')''"
| "run_step LitFal = stateLit CHR ''s'' LitFals ''in literal false (expecting 's')''"
| "run_step LitFals = stateLit CHR ''e'' EndValue ''in literal false (expecting 'e')''"
| "run_step LitN = stateLit CHR ''u'' LitNu ''in literal null (expecting 'u')''"
| "run_step LitNu = stateLit CHR ''l'' LitNul ''in literal null (expecting 'l')''"
| "run_step LitNul = stateLit CHR ''l'' EndValue ''in literal null (expecting 'l')''"
| "run_step Error = (\<lambda>s c. (scanError, s))"

definition scanner_step :: "scanner \<Rightarrow> char \<Rightarrow> opcode \<times> scanner" where
  "scanner_step s c = run_step (scan_step s) s c"

definition scanner_reset :: scanner where
  "scanner_reset = \<lparr>scan_step = BeginValue, scan_endTop = False, scan_parseState = [], scan_err = None,
       scan_bytes = 0\<rparr>"

text \<open>\<^verbatim>\<open>s.eof()\<close>: the input is complete if the top-level value has ended, possibly after one
  more step on a space (which ends a number).\<close>

definition scanner_eof :: "scanner \<Rightarrow> opcode \<times> scanner" where
  "scanner_eof s =
     (if scan_err s \<noteq> None then (scanError, s)
      else if scan_endTop s then (scanEnd, s)
      else
        let s1 = snd (scanner_step s CHR '' '') in
        if scan_endTop s1 then (scanEnd, s1)
        else if scan_err s1 = None then (scanError, s1\<lparr>scan_err := Some (SyntaxError UnexpectedEnd (scan_bytes s1))\<rparr>)
        else (scanError, s1))"

text \<open>\<^verbatim>\<open>checkValid\<close>: step over every byte, counting, then check the end of input.\<close>

fun checkValid_loop :: "scanner \<Rightarrow> string \<Rightarrow> error option" where
  "checkValid_loop s [] = (case scanner_eof s of (op, s1) \<Rightarrow> if op = scanError then scan_err s1 else None)"
| "checkValid_loop s (c # cs) =
     (case scanner_step (s\<lparr>scan_bytes := Suc (scan_bytes s)\<rparr>) c of
        (op, s1) \<Rightarrow> if op = scanError then scan_err s1 else checkValid_loop s1 cs)"

definition checkValid :: "string \<Rightarrow> error option" where
  "checkValid data = checkValid_loop scanner_reset data"

subsection \<open>String literals (\<^verbatim>\<open>unquoteBytes\<close>, \<^verbatim>\<open>unicode/utf8\<close>, \<^verbatim>\<open>unicode/utf16\<close>)\<close>

definition RuneError :: nat where
  "RuneError = 0xFFFD"

definition byte :: "nat \<Rightarrow> char" where
  "byte n = char_of n"

definition utf8_EncodeRune :: "nat \<Rightarrow> string" where
  "utf8_EncodeRune r =
     (if r < 0x80 then [byte r]
      else if r < 0x800 then [byte (0xC0 + r div 0x40), byte (0x80 + r mod 0x40)]
      else if 0xD800 \<le> r \<and> r < 0xE000 \<or> 0x10FFFF < r then [byte 0xEF, byte 0xBF, byte 0xBD]
      else if r < 0x10000
        then [byte (0xE0 + r div 0x1000), byte (0x80 + r div 0x40 mod 0x40), byte (0x80 + r mod 0x40)]
      else [byte (0xF0 + r div 0x40000), byte (0x80 + r div 0x1000 mod 0x40),
            byte (0x80 + r div 0x40 mod 0x40), byte (0x80 + r mod 0x40)])"

definition in_range :: "nat \<Rightarrow> nat \<Rightarrow> char \<Rightarrow> bool" where
  "in_range lo hi c \<longleftrightarrow> lo \<le> (of_char c :: nat) \<and> (of_char c :: nat) \<le> hi"

text \<open>
  The width \<^verbatim>\<open>utf8.DecodeRune\<close> reports for the bytes at the front of \<open>s\<close>: the length
  of a well-formed UTF-8 sequence, and 1 for a byte that does not start one (the rune is
  then \<^verbatim>\<open>RuneError\<close>).
\<close>

definition utf8_DecodeRune_size :: "string \<Rightarrow> nat" where
  "utf8_DecodeRune_size s =
     (case s of
        [] \<Rightarrow> 0
      | c0 # t \<Rightarrow>
          let b0 = (of_char c0 :: nat) in
          if b0 < 0x80 then 1
          else if 0xC2 \<le> b0 \<and> b0 \<le> 0xDF then
            (case t of c1 # _ \<Rightarrow> if in_range 0x80 0xBF c1 then 2 else 1 | _ \<Rightarrow> 1)
          else if 0xE0 \<le> b0 \<and> b0 \<le> 0xEF then
            (case t of c1 # c2 # _ \<Rightarrow>
               if in_range (if b0 = 0xE0 then 0xA0 else 0x80) (if b0 = 0xED then 0x9F else 0xBF) c1
                  \<and> in_range 0x80 0xBF c2 then 3 else 1
             | _ \<Rightarrow> 1)
          else if 0xF0 \<le> b0 \<and> b0 \<le> 0xF4 then
            (case t of c1 # c2 # c3 # _ \<Rightarrow>
               if in_range (if b0 = 0xF0 then 0x90 else 0x80) (if b0 = 0xF4 then 0x8F else 0xBF) c1
                  \<and> in_range 0x80 0xBF c2 \<and> in_range 0x80 0xBF c3 then 4 else 1
             | _ \<Rightarrow> 1)
          else 1)"

definition hexval :: "char \<Rightarrow> nat" where
  "hexval c =
     (if CHR ''0'' \<le> c \<and> c \<le> CHR ''9'' then of_char c - of_char CHR ''0''
      else if CHR ''a'' \<le> c \<and> c \<le> CHR ''f'' then of_char c - of_char CHR ''a'' + 10
      else of_char c - of_char CHR ''A'' + 10)"

text \<open>\<^verbatim>\<open>getu4\<close>: the code unit of a leading escape of the form backslash, u, four
  hexadecimal digits; \<open>None\<close> is Go's \<open>-1\<close>.\<close>

definition getu4 :: "string \<Rightarrow> nat option" where
  "getu4 s =
     (case s of
        b # u # h1 # h2 # h3 # h4 # _ \<Rightarrow>
          if b = CHR 0x5C \<and> u = CHR ''u'' \<and> isHex h1 \<and> isHex h2 \<and> isHex h3 \<and> isHex h4
          then Some (((hexval h1 * 16 + hexval h2) * 16 + hexval h3) * 16 + hexval h4)
          else None
      | _ \<Rightarrow> None)"

definition utf16_DecodeRune :: "nat \<Rightarrow> nat option \<Rightarrow> nat" where
  "utf16_DecodeRune r1 r2 =
     (case r2 of
        Some r2' \<Rightarrow>
          if 0xD800 \<le> r1 \<and> r1 < 0xDC00 \<and> 0xDC00 \<le> r2' \<and> r2' < 0xE000
          then (r1 - 0xD800) * 0x400 + (r2' - 0xDC00) + 0x10000
          else RuneError
      | None \<Rightarrow> RuneError)"

text \<open>
  \<^verbatim>\<open>unquoteBytes\<close> on the bytes between the quotes of a string literal: escapes are
  replaced, a surrogate pair of u-escapes becomes one rune, and bytes that are not
  well-formed UTF-8 become the replacement rune. \<open>None\<close> is \<^verbatim>\<open>ok = false\<close>.
\<close>

function unquote :: "string \<Rightarrow> string option" where
  "unquote [] = Some []"
| "unquote (c # cs) =
     (if c = CHR 0x5C then
        (case cs of
           [] \<Rightarrow> None
         | e # rest \<Rightarrow>
             if e = CHR 0x22 \<or> e = CHR 0x5C \<or> e = CHR ''/'' \<or> e = CHR 0x27
               then map_option ((#) e) (unquote rest)
             else if e = CHR ''b'' then map_option ((#) (CHR 0x08)) (unquote rest)
             else if e = CHR ''f'' then map_option ((#) (CHR 0x0C)) (unquote rest)
             else if e = CHR ''n'' then map_option ((#) (CHR 0x0A)) (unquote rest)
             else if e = CHR ''r'' then map_option ((#) (CHR 0x0D)) (unquote rest)
             else if e = CHR ''t'' then map_option ((#) (CHR 0x09)) (unquote rest)
             else if e = CHR ''u'' then
               (case getu4 (c # cs) of
                  None \<Rightarrow> None
                | Some rr \<Rightarrow>
                    if 0xD800 \<le> rr \<and> rr < 0xE000 then
                      (let dec = utf16_DecodeRune rr (getu4 (drop 5 cs)) in
                       if dec \<noteq> RuneError
                       then map_option ((@) (utf8_EncodeRune dec)) (unquote (drop 11 cs))
                       else map_option ((@) (utf8_EncodeRune RuneError)) (unquote (drop 5 cs)))
                    else map_option ((@) (utf8_EncodeRune rr)) (unquote (drop 5 cs)))
             else None)
      else if c = CHR 0x22 \<or> c < CHR 0x20 then None
      else if c < CHR 0x80 then map_option ((#) c) (unquote cs)
      else
        (let size = utf8_DecodeRune_size (c # cs) in
         if size = 1 then map_option ((@) (utf8_EncodeRune RuneError)) (unquote cs)
         else map_option ((@) (take size (c # cs))) (unquote (drop (size - 1) cs))))"
  by pat_completeness auto
termination
  by (relation "measure length") auto

subsection \<open>The decoder (\<^verbatim>\<open>encoding/json/decode.go\<close>)\<close>

text \<open>
  The decoder walks the bytes again, which \<^verbatim>\<open>checkValid\<close> has accepted. Here it first
  reads the JSON value it walks over, and then stores it (below). Where Go's decoder panics
  with ``JSON decoder out of sync'', the result is \<open>None\<close>.
\<close>

datatype json =
    JNull | JBool bool | JNumber string | JString string
  | JArray "json list" | JObject "(string \<times> json) list"

definition skip_space :: "string \<Rightarrow> string" where
  "skip_space s = dropWhile isSpace s"

text \<open>The string case of \<^verbatim>\<open>rescanLiteral\<close>, after the opening quote: the bytes up to the
  closing quote, and the bytes after it.\<close>

fun read_string :: "string \<Rightarrow> (string \<times> string) option" where
  "read_string [] = None"
| "read_string (c # cs) =
     (if c = CHR 0x22 then Some ([], cs)
      else if c = CHR 0x5C then
        (case cs of
           [] \<Rightarrow> None
         | e # rest \<Rightarrow> map_option (\<lambda>(lit, after). (c # e # lit, after)) (read_string rest))
      else map_option (\<lambda>(lit, after). (c # lit, after)) (read_string cs))"

definition isNumberByte :: "char \<Rightarrow> bool" where
  "isNumberByte c \<longleftrightarrow>
     isDigit c \<or> c = CHR ''.'' \<or> c = CHR ''e'' \<or> c = CHR ''E'' \<or> c = CHR ''+'' \<or> c = CHR ''-''"

definition read_literal :: "string \<Rightarrow> (json \<times> string) option" where
  "read_literal s =
     (case s of
        [] \<Rightarrow> None
      | c # cs \<Rightarrow>
          if c = CHR 0x22 then
            (case read_string cs of
               None \<Rightarrow> None
             | Some (lit, after) \<Rightarrow> map_option (\<lambda>t. (JString t, after)) (unquote lit))
          else if c = CHR ''t'' then Some (JBool True, drop 3 cs)
          else if c = CHR ''f'' then Some (JBool False, drop 4 cs)
          else if c = CHR ''n'' then Some (JNull, drop 3 cs)
          else if isDigit c \<or> c = CHR ''-''
            then Some (JNumber (c # takeWhile isNumberByte cs), dropWhile isNumberByte cs)
          else None)"

text \<open>
  \<^verbatim>\<open>d.value\<close>, \<^verbatim>\<open>d.array\<close> and \<^verbatim>\<open>d.object\<close> call each other; the first argument bounds
  the depth of the calls. \<open>decode_array\<close> and \<open>decode_object\<close> start after the opening
  bracket or brace. Each returns what it read and the bytes that follow.
\<close>

fun decode_value :: "nat \<Rightarrow> string \<Rightarrow> (json \<times> string) option"
and decode_array :: "nat \<Rightarrow> string \<Rightarrow> (json list \<times> string) option"
and decode_object :: "nat \<Rightarrow> string \<Rightarrow> ((string \<times> json) list \<times> string) option"
where
  "decode_value 0 s = None"
| "decode_value (Suc n) s =
     (case s of
        [] \<Rightarrow> None
      | c # cs \<Rightarrow>
          if c = CHR ''['' then map_option (\<lambda>(vs, after). (JArray vs, after)) (decode_array n cs)
          else if c = CHR ''{'' then map_option (\<lambda>(kvs, after). (JObject kvs, after)) (decode_object n cs)
          else read_literal s)"
| "decode_array 0 s = None"
| "decode_array (Suc n) s =
     (case skip_space s of
        [] \<Rightarrow> None
      | c # cs \<Rightarrow>
          if c = CHR '']'' then Some ([], cs)
          else
            (case decode_value n (c # cs) of
               None \<Rightarrow> None
             | Some (v, after) \<Rightarrow>
                 (case skip_space after of
                    [] \<Rightarrow> None
                  | d # ds \<Rightarrow>
                      if d = CHR '']'' then Some ([v], ds)
                      else if d = CHR '','' then map_option (\<lambda>(vs, rest). (v # vs, rest)) (decode_array n ds)
                      else None)))"
| "decode_object 0 s = None"
| "decode_object (Suc n) s =
     (case skip_space s of
        [] \<Rightarrow> None
      | c # cs \<Rightarrow>
          if c = CHR ''}'' then Some ([], cs)
          else if c \<noteq> CHR 0x22 then None
          else
            (case read_string cs of
               None \<Rightarrow> None
             | Some (lit, after) \<Rightarrow>
                 (case unquote lit of
                    None \<Rightarrow> None
                  | Some key \<Rightarrow>
                      (case skip_space after of
                         [] \<Rightarrow> None
                       | colon # vs \<Rightarrow>
                           if colon \<noteq> CHR '':'' then None
                           else
                             (case decode_value n (skip_space vs) of
                                None \<Rightarrow> None
                              | Some (v, after') \<Rightarrow>
                                  (case skip_space after' of
                                     [] \<Rightarrow> None
                                   | d # ds \<Rightarrow>
                                       if d = CHR ''}'' then Some ([(key, v)], ds)
                                       else if d = CHR '','' then
                                         map_option (\<lambda>(kvs, rest). ((key, v) # kvs, rest)) (decode_object n ds)
                                       else None))))))"

text \<open>The top-level value of the data. The depth given is never exhausted (see
  \<open>json_value_depth_enough\<close> below).\<close>

definition json_value :: "string \<Rightarrow> json option" where
  "json_value data = map_option fst (decode_value (2 * length data + 2) (skip_space data))"

subsection \<open>Storing into \<^verbatim>\<open>reverseProxy\<close>\<close>

text \<open>
  The struct has one field, of type string, tagged \<^verbatim>\<open>json:"proxyURL"\<close>. An object key
  selects it if it is that name exactly or up to the case of ASCII letters. A string value
  is stored; \<^verbatim>\<open>null\<close> leaves the field as it is; any other value leaves it as it is and
  the first such mismatch is the error returned at the end. Members with other keys are
  skipped. A top-level value other than an object or \<^verbatim>\<open>null\<close> is a mismatch too.
\<close>

definition toUpper :: "char \<Rightarrow> char" where
  "toUpper c = (if CHR ''a'' \<le> c \<and> c \<le> CHR ''z'' then char_of (of_char c - (32::nat)) else c)"

definition field_matches :: "string \<Rightarrow> bool" where
  "field_matches key \<longleftrightarrow> key = ''proxyURL'' \<or> map toUpper key = map toUpper ''proxyURL''"

definition saveError :: "error option \<Rightarrow> error \<Rightarrow> error option" where
  "saveError saved e = (case saved of None \<Rightarrow> Some e | Some e0 \<Rightarrow> Some e0)"

fun store_URL :: "error option \<times> reverseProxy \<Rightarrow> json \<Rightarrow> error option \<times> reverseProxy" where
  "store_URL (saved, rp) (JString t) = (saved, rp\<lparr>URL := t\<rparr>)"
| "store_URL (saved, rp) JNull = (saved, rp)"
| "store_URL (saved, rp) (JBool b) = (saveError saved (UnmarshalTypeError ''bool''), rp)"
| "store_URL (saved, rp) (JNumber n) = (saveError saved (UnmarshalTypeError ''number''), rp)"
| "store_URL (saved, rp) (JArray vs) = (saveError saved (UnmarshalTypeError ''array''), rp)"
| "store_URL (saved, rp) (JObject kvs) = (saveError saved (UnmarshalTypeError ''object''), rp)"

definition store_member ::
  "error option \<times> reverseProxy \<Rightarrow> string \<times> json \<Rightarrow> error option \<times> reverseProxy" where
  "store_member acc kv = (if field_matches (fst kv) then store_URL acc (snd kv) else acc)"

fun store_reverseProxy :: "reverseProxy \<Rightarrow> json \<Rightarrow> error option \<times> reverseProxy" where
  "store_reverseProxy rp (JObject kvs) = foldl store_member (None, rp) kvs"
| "store_reverseProxy rp JNull = (None, rp)"
| "store_reverseProxy rp (JString t) = (Some (UnmarshalTypeError ''string''), rp)"
| "store_reverseProxy rp (JNumber n) = (Some (UnmarshalTypeError ''number''), rp)"
| "store_reverseProxy rp (JBool b) = (Some (UnmarshalTypeError ''bool''), rp)"
| "store_reverseProxy rp (JArray vs) = (Some (UnmarshalTypeError ''array''), rp)"

text \<open>
  \<^verbatim>\<open>json.Unmarshal(data, rp)\<close>: the error returned (if any) and the struct afterwards.
  A syntax error is returned before the struct is touched.
\<close>

definition json_Unmarshal :: "string \<Rightarrow> reverseProxy \<Rightarrow> (error option \<times> reverseProxy) option" where
  "json_Unmarshal data rp =
     (case checkValid data of
        Some e \<Rightarrow> Some (Some e, rp)
      | None \<Rightarrow> map_option (store_reverseProxy rp) (json_value data))"

subsection \<open>The target resolver\<close>

definition New :: "string \<Rightarrow> OKProxy" where
  "New u = \<lparr>proxy = \<lparr>URL = u\<rparr>\<rparr>"

definition SetProxyURL :: "reverseProxy \<Rightarrow> string \<Rightarrow> reverseProxy" where
  "SetProxyURL rp u = rp\<lparr>URL := u\<rparr>"

definition GetProxyURL :: "reverseProxy \<Rightarrow> string" where
  "GetProxyURL rp = URL rp"

subsection \<open>The forwarder\<close>

text \<open>
  \<^verbatim>\<open>url.Parse\<close> belongs to the Go library; the forwarder is modelled for any parser,
  passed as \<open>url_Parse\<close>. The entry into the forwarder is recorded first. On a parse error
  the error handler is called and nothing else happens; otherwise the request is rewritten
  field by field, in the order of the source, and handed to the reverse proxy.

  \<^verbatim>\<open>httputil.ReverseProxy\<close> belongs to the Go library too. It sends a clone of the
  request it is given, and the clone shares the body: of the request itself, the reverse
  proxy changes the body only, by reading from it. How much it reads depends on the
  upstream (all of it when the upstream is reached and takes the request), so the body it
  leaves is given by a second parameter, \<open>proxy_ServeHTTP target r\<close>.
\<close>

definition ErrorHandler_call :: "error \<Rightarrow> state \<Rightarrow> state" where
  "ErrorHandler_call err s = s\<lparr>calls := calls s @ [ServerErrorHandler (st_r s) err]\<rparr>"

definition serveReverseProxy ::
  "(string \<Rightarrow> error + url) \<Rightarrow> (url \<Rightarrow> request \<Rightarrow> body) \<Rightarrow> state \<Rightarrow> state" where
  "serveReverseProxy url_Parse proxy_ServeHTTP s0 =
     (let s = s0\<lparr>calls := calls s0 @ [Forwarder (st_r s0)]\<rparr> in
      case url_Parse (GetProxyURL (proxy (st_p s))) of
        Inl err \<Rightarrow> ErrorHandler_call err s
      | Inr u \<Rightarrow>
          (let r1 = (st_r s)\<lparr>r_URL := (r_URL (st_r s))\<lparr>Host := Host u\<rparr>\<rparr>;
               r2 = r1\<lparr>r_URL := (r_URL r1)\<lparr>Scheme := Scheme u\<rparr>\<rparr>;
               r3 = r2\<lparr>r_Header :=
                      Header_Set (r_Header r2) ''X-Forwarded-Host'' (Header_Get (r_Header r2) ''Host'')\<rparr>;
               r4 = r3\<lparr>r_Host := Host u\<rparr>
           in s\<lparr>st_r := r4\<lparr>r_Body := proxy_ServeHTTP u r4\<rparr>,
                calls := calls s @ [ServeHTTP u r4]\<rparr>))"

subsection \<open>The path-mode handler\<close>

definition PathRequestProxyHandler ::
  "(string \<Rightarrow> error + url) \<Rightarrow> (url \<Rightarrow> request \<Rightarrow> body) \<Rightarrow> string \<Rightarrow> state \<Rightarrow> state" where
  "PathRequestProxyHandler url_Parse proxy_ServeHTTP path s =
     (if GetProxyURL (proxy (st_p s)) = []
      then ErrorHandler_call (ErrorsNew ''ProxyURL needs to be set for PathRequestProxyHandler'') s
      else
        let r1 = (st_r s)\<lparr>r_URL := (r_URL (st_r s))\<lparr>Path := strings_TrimPrefix (Path (r_URL (st_r s))) path\<rparr>\<rparr>
        in serveReverseProxy url_Parse proxy_ServeHTTP (s\<lparr>st_r := r1\<rparr>))"


subsection \<open>Decoding the target from the body\<close>

text \<open>
  \<^verbatim>\<open>decodeURLFromBody\<close> returns its error (\<open>None\<close> is \<^verbatim>\<open>nil\<close>) and the state it
  leaves. A failed read returns at once, with the body consumed. Otherwise the body is
  replaced by a fresh reader over the bytes read, before they are unmarshalled into the
  \<^verbatim>\<open>reverseProxy\<close>. The outer \<open>None\<close> is the decoder's panic.
\<close>

definition decodeURLFromBody :: "state \<Rightarrow> (error option \<times> state) option" where
  "decodeURLFromBody s =
     (case ioutil_ReadAll (r_Body (st_r s)) of
        ((data, read_err), drained) \<Rightarrow>
          (case read_err of
             Some e \<Rightarrow> Some (Some e, s\<lparr>st_r := (st_r s)\<lparr>r_Body := drained\<rparr>\<rparr>)
           | None \<Rightarrow>
               (let s1 = s\<lparr>st_r := (st_r s)\<lparr>r_Body := NopCloser_NewBuffer data\<rparr>\<rparr> in
                case json_Unmarshal data (proxy (st_p s1)) of
                  None \<Rightarrow> None
                | Some (json_err, rp) \<Rightarrow> Some (json_err, s1\<lparr>st_p := (st_p s1)\<lparr>proxy := rp\<rparr>\<rparr>))))"

subsection \<open>The payload-mode handler\<close>

definition PayloadRequestProxyHandler ::
  "(string \<Rightarrow> error + url) \<Rightarrow> (url \<Rightarrow> request \<Rightarrow> body) \<Rightarrow> state \<Rightarrow> state option" where
  "PayloadRequestProxyHandler url_Parse proxy_ServeHTTP s =
     (case decodeURLFromBody s of
        None \<Rightarrow> None
      | Some (Some e, s1) \<Rightarrow> Some (ErrorHandler_call e s1)
      | Some (None, s1) \<Rightarrow>
          if GetProxyURL (proxy (st_p s1)) = []
          then Some (ErrorHandler_call
                 (ErrorsNew ''ProxyURL needs to be set in request body at proxyURL field'') s1)
          else Some (serveReverseProxy url_Parse proxy_ServeHTTP s1))"

section \<open>Inputs from the tests\<close>

text \<open>
  The request that \<^verbatim>\<open>httptest.NewRequest("GET", path, body)\<close> builds in okproxy\_test.go:
  the URL holds the path only, there are no headers, and the host is \<^verbatim>\<open>example.com\<close>.
\<close>

definition test_request :: "string \<Rightarrow> string \<Rightarrow> request" where
  "test_request path content =
     \<lparr>r_URL = \<lparr>Scheme = [], Host = [], Path = path\<rparr>,
      r_Header = Map.empty,
      r_Host = ''example.com'',
      r_Body = \<lparr>unread = content, fault = None\<rparr>\<rparr>"

definition test_state :: "string \<Rightarrow> request \<Rightarrow> state" where
  "test_state target req = \<lparr>st_p = New target, st_r = req, calls = []\<rparr>"

text \<open>
  A parser to run the forwarder with on the targets of the tests: the target of
  ``Updates URL and request data'' and a plain http target are split into scheme and host;
  anything else, like the target of ``Errors on url parse'', is an error.
\<close>

definition bad_target :: string where
  "bad_target = ''http'' @ [CHR 0x0A] @ ''s://6876826^@30''"

definition test_url_Parse :: "string \<Rightarrow> error + url" where
  "test_url_Parse target =
     (if target = ''https://127.0.0.1:8080''
        then Inr \<lparr>Scheme = ''https'', Host = ''127.0.0.1:8080'', Path = []\<rparr>
      else if target = ''http://h:1''
        then Inr \<lparr>Scheme = ''http'', Host = ''h:1'', Path = []\<rparr>
      else Inl (URLError target))"

text \<open>
  A reverse proxy that reaches its upstream: the transport sends the whole body, so
  nothing of it is left unread.
\<close>

definition ServeHTTP_sends_body :: "url \<Rightarrow> request \<Rightarrow> body" where
  "ServeHTTP_sends_body target req = (r_Body req)\<lparr>unread := []\<rparr>"


definition body_truncated :: string where
  \<open>body_truncated = ''{"proxyURL":"http://h:1"''\<close>

definition body_empty_object :: string where
  "body_empty_object = ''{}''"

section \<open>Properties\<close>

subsection \<open>The depth bound of the decoder\<close>

text \<open>
  Every call of \<open>decode_value\<close>, \<open>decode_array\<close> and \<open>decode_object\<close> that returns
  has consumed at least one byte, so a depth of twice the length of the input is never
  exhausted: any larger depth gives the same result, \<open>None\<close> included. The \<open>None\<close> of
  \<open>json_value\<close> is therefore the decoder meeting bytes it cannot read, never the bound.
\<close>

lemma length_skip_space: "length (skip_space s) \<le> length s"
  by (simp add: skip_space_def length_dropWhile_le)

lemma read_string_shorter: "read_string s = Some (lit, after) \<Longrightarrow> length after < length s"
proof (induction s arbitrary: lit after rule: read_string.induct)
  case 1
  then show ?case by simp
next
  case (2 c cs)
  then show ?case
    by (fastforce split: if_splits list.splits)
qed

lemma read_literal_shorter: "read_literal s = Some (v, after) \<Longrightarrow> length after < length s"
  by (auto simp: read_literal_def less_Suc_eq_le length_dropWhile_le
      split: list.splits if_splits option.splits dest!: read_string_shorter)

lemma decode_shorter:
  "(decode_value n s = Some (v, after) \<longrightarrow> length after < length s) \<and>
   (decode_array n s = Some (vs, after) \<longrightarrow> length after < length s) \<and>
   (decode_object n s = Some (kvs, after) \<longrightarrow> length after < length s)"
proof (induction n arbitrary: s v vs kvs after)
  case 0
  show ?case by simp
next
  case (Suc n)
  have V: "decode_value (Suc n) s = Some (v, after) \<Longrightarrow> length after < length s"
  proof -
    assume a: "decode_value (Suc n) s = Some (v, after)"
    then obtain c cs where s: "s = c # cs" by (cases s) auto
    show ?thesis
    proof (cases "c = CHR ''[''")
      case True
      with a s obtain xs where "decode_array n cs = Some (xs, after)" by auto
      with Suc have "length after < length cs" by blast
      with s show ?thesis by simp
    next
      case False
      show ?thesis
      proof (cases "c = CHR ''{''")
        case True
        with a s False obtain xs where "decode_object n cs = Some (xs, after)" by auto
        with Suc have "length after < length cs" by blast
        with s show ?thesis by simp
      next
        case False
        with a s \<open>c \<noteq> CHR ''[''\<close> have "read_literal s = Some (v, after)" by simp
        then show ?thesis by (rule read_literal_shorter)
      qed
    qed
  qed
  have A: "decode_array (Suc n) s = Some (vs, after) \<Longrightarrow> length after < length s"
  proof -
    assume a: "decode_array (Suc n) s = Some (vs, after)"
    then obtain c cs where sk: "skip_space s = c # cs" by (cases "skip_space s") auto
    have le: "Suc (length cs) \<le> length s" using length_skip_space [of s] sk by simp
    show ?thesis
    proof (cases "c = CHR '']''")
      case True
      with a sk have "after = cs" by simp
      with le show ?thesis by simp
    next
      case False
      with a sk obtain x a1 where dv: "decode_value n (c # cs) = Some (x, a1)"
        by (auto split: option.splits)
      with Suc have l1: "length a1 < Suc (length cs)" by fastforce
      from a sk False dv obtain d ds where sk2: "skip_space a1 = d # ds"
        by (cases "skip_space a1") auto
      have le2: "Suc (length ds) \<le> length a1" using length_skip_space [of a1] sk2 by simp
      show ?thesis
      proof (cases "d = CHR '']''")
        case True
        with a sk False dv sk2 have "after = ds" by simp
        with le le2 l1 show ?thesis by simp
      next
        case F2: False
        with a sk False dv sk2 obtain xs where "decode_array n ds = Some (xs, after)"
          by (auto split: if_splits)
        with Suc have "length after < length ds" by blast
        with le le2 l1 show ?thesis by simp
      qed
    qed
  qed
  have O: "decode_object (Suc n) s = Some (kvs, after) \<Longrightarrow> length after < length s"
  proof -
    assume a: "decode_object (Suc n) s = Some (kvs, after)"
    then obtain c cs where sk: "skip_space s = c # cs" by (cases "skip_space s") auto
    have le: "Suc (length cs) \<le> length s" using length_skip_space [of s] sk by simp
    show ?thesis
    proof (cases "c = CHR ''}''")
      case True
      with a sk have "after = cs" by simp
      with le show ?thesis by simp
    next
      case False
      with a sk have q: "c = CHR 0x22" by (auto split: if_splits)
      from a sk False q obtain lit a0 where rs: "read_string cs = Some (lit, a0)"
        by (auto split: option.splits)
      from a sk False q rs obtain key where uq: "unquote lit = Some key"
        by (auto split: option.splits)
      from a sk False q rs uq obtain colon vs' where sk1: "skip_space a0 = colon # vs'"
        by (cases "skip_space a0") auto
      from a sk False q rs uq sk1 have col: "colon = CHR '':''" by (auto split: if_splits)
      from a sk False q rs uq sk1 col obtain x a1 where dv: "decode_value n (skip_space vs') = Some (x, a1)"
        by (auto split: option.splits)
      from a sk False q rs uq sk1 col dv obtain d ds where sk2: "skip_space a1 = d # ds"
        by (cases "skip_space a1") auto
      have l0: "length a0 < length cs" using rs by (rule read_string_shorter)
      have l1: "Suc (length vs') \<le> length a0" using length_skip_space [of a0] sk1 by simp
      have l2: "length a1 < length (skip_space vs')" using dv Suc by blast
      have l3: "length (skip_space vs') \<le> length vs'" by (rule length_skip_space)
      have l4: "Suc (length ds) \<le> length a1" using length_skip_space [of a1] sk2 by simp
      show ?thesis
      proof (cases "d = CHR ''}''")
        case True
        with a sk False q rs uq sk1 col dv sk2 have "after = ds" by simp
        with le l0 l1 l2 l3 l4 show ?thesis by simp
      next
        case F2: False
        with a sk False q rs uq sk1 col dv sk2 obtain xs where "decode_object n ds = Some (xs, after)"
          by (auto split: if_splits)
        with Suc have "length after < length ds" by blast
        with le l0 l1 l2 l3 l4 show ?thesis by simp
      qed
    qed
  qed
  from V A O show ?case by blast
qed

lemma decode_value_shorter: "decode_value n s = Some (v, after) \<Longrightarrow> length after < length s"
  using decode_shorter [of n s v after] by blast

lemma decode_depth_enough:
  "(2 * length s \<le> n \<longrightarrow> 2 * length s \<le> m \<longrightarrow> decode_value n s = decode_value m s) \<and>
   (2 * length s + 1 \<le> n \<longrightarrow> 2 * length s + 1 \<le> m \<longrightarrow> decode_array n s = decode_array m s) \<and>
   (2 * length s + 1 \<le> n \<longrightarrow> 2 * length s + 1 \<le> m \<longrightarrow> decode_object n s = decode_object m s)"
proof (induction n arbitrary: s m)
  case 0
  show ?case by (cases m) simp_all
next
  case (Suc n)
  have IHv: "\<And>s m. 2 * length s \<le> n \<Longrightarrow> 2 * length s \<le> m \<Longrightarrow> decode_value n s = decode_value m s"
    using Suc by blast
  have IHa: "\<And>s m. 2 * length s + 1 \<le> n \<Longrightarrow> 2 * length s + 1 \<le> m \<Longrightarrow> decode_array n s = decode_array m s"
    using Suc by blast
  have IHo: "\<And>s m. 2 * length s + 1 \<le> n \<Longrightarrow> 2 * length s + 1 \<le> m \<Longrightarrow> decode_object n s = decode_object m s"
    using Suc by blast
  have V: "decode_value (Suc n) s = decode_value m s"
    if b: "2 * length s \<le> Suc n" "2 * length s \<le> m"
  proof (cases s)
    case Nil
    then show ?thesis by (cases m) simp_all
  next
    case (Cons c cs)
    with b obtain m' where m: "m = Suc m'" by (cases m) auto
    from b Cons m have "2 * length cs + 1 \<le> n" "2 * length cs + 1 \<le> m'" by simp_all
    then have "decode_array n cs = decode_array m' cs" "decode_object n cs = decode_object m' cs"
      by (rule IHa, rule IHo)
    with Cons m show ?thesis by simp
  qed
  have A: "decode_array (Suc n) s = decode_array m s"
    if b: "2 * length s + 1 \<le> Suc n" "2 * length s + 1 \<le> m"
  proof -
    from b obtain m' where m: "m = Suc m'" by (cases m) auto
    show ?thesis
    proof (cases "skip_space s")
      case Nil
      with m show ?thesis by simp
    next
      case (Cons c cs)
      have le: "Suc (length cs) \<le> length s" using length_skip_space [of s] Cons by simp
      with b m have "2 * length (c # cs) \<le> n" "2 * length (c # cs) \<le> m'" by simp_all
      then have E1: "decode_value n (c # cs) = decode_value m' (c # cs)" by (rule IHv)
      have E2: "decode_array n ds = decode_array m' ds"
        if "decode_value m' (c # cs) = Some (x, a1)" "skip_space a1 = d # ds" for x a1 d ds
      proof -
        have "length a1 < length (c # cs)" using that(1) by (rule decode_value_shorter)
        moreover have "Suc (length ds) \<le> length a1" using length_skip_space [of a1] that(2) by simp
        ultimately have "2 * length ds + 1 \<le> n" "2 * length ds + 1 \<le> m'" using le b m by simp_all
        then show ?thesis by (rule IHa)
      qed
      show ?thesis
        unfolding m by (auto simp: Cons E1 E2 split: option.splits list.splits)
    qed
  qed
  have O: "decode_object (Suc n) s = decode_object m s"
    if b: "2 * length s + 1 \<le> Suc n" "2 * length s + 1 \<le> m"
  proof -
    from b obtain m' where m: "m = Suc m'" by (cases m) auto
    show ?thesis
    proof (cases "skip_space s")
      case Nil
      with m show ?thesis by simp
    next
      case (Cons c cs)
      have le: "Suc (length cs) \<le> length s" using length_skip_space [of s] Cons by simp
      have E1: "decode_value n (skip_space vs) = decode_value m' (skip_space vs)"
        if "read_string cs = Some (lit, a0)" "skip_space a0 = colon # vs" for lit a0 colon vs
      proof -
        have "length a0 < length cs" using that(1) by (rule read_string_shorter)
        moreover have "Suc (length vs) \<le> length a0" using length_skip_space [of a0] that(2) by simp
        moreover have "length (skip_space vs) \<le> length vs" by (rule length_skip_space)
        ultimately have "2 * length (skip_space vs) \<le> n" "2 * length (skip_space vs) \<le> m'"
          using le b m by simp_all
        then show ?thesis by (rule IHv)
      qed
      have E2: "decode_object n ds = decode_object m' ds"
        if "read_string cs = Some (lit, a0)" "skip_space a0 = colon # vs"
           "decode_value m' (skip_space vs) = Some (x, a1)" "skip_space a1 = d # ds"
        for lit a0 colon vs x a1 d ds
      proof -
        have "length a0 < length cs" using that(1) by (rule read_string_shorter)
        moreover have "Suc (length vs) \<le> length a0" using length_skip_space [of a0] that(2) by simp
        moreover have "length (skip_space vs) \<le> length vs" by (rule length_skip_space)
        moreover have "length a1 < length (skip_space vs)" using that(3) by (rule decode_value_shorter)
        moreover have "Suc (length ds) \<le> length a1" using length_skip_space [of a1] that(4) by simp
        ultimately have "2 * length ds + 1 \<le> n" "2 * length ds + 1 \<le> m'" using le b m by simp_all
        then show ?thesis by (rule IHo)
      qed
      show ?thesis
        unfolding m by (auto simp: Cons E1 E2 split: option.splits list.splits)
    qed
  qed
  from V A O show ?case by blast
qed

lemma json_value_depth_enough:
  "2 * length data + 2 \<le> n \<Longrightarrow> map_option fst (decode_value n (skip_space data)) = json_value data"
proof -
  assume a: "2 * length data + 2 \<le> n"
  have "length (skip_space data) \<le> length data" by (rule length_skip_space)
  with a have "2 * length (skip_space data) \<le> n" "2 * length (skip_space data) \<le> 2 * length data + 2"
    by simp_all
  with decode_depth_enough [of "skip_space data" n "2 * length data + 2"]
  show ?thesis by (simp add: json_value_def)
qed

subsection \<open>Auxiliary facts\<close>

lemma strings_HasPrefix_iff: "strings_HasPrefix s pre \<longleftrightarrow> prefix pre s"
  by (auto simp: strings_HasPrefix_def prefix_def) (metis append_take_drop_id)

lemma strings_TrimPrefix_append: "strings_TrimPrefix (pre @ rest) pre = rest"
  by (simp add: strings_TrimPrefix_def strings_HasPrefix_def)

lemma strings_TrimPrefix_other: "\<not> prefix pre s \<Longrightarrow> strings_TrimPrefix s pre = s"
  by (simp add: strings_TrimPrefix_def strings_HasPrefix_iff)

lemma ReadAll_NopCloser: "fst (ioutil_ReadAll (NopCloser_NewBuffer data)) = (data, None)"
  by (simp add: ioutil_ReadAll_def NopCloser_NewBuffer_def)


lemma serveReverseProxy_calls:
  "calls (serveReverseProxy url_Parse proxy_ServeHTTP s) =
     calls s @ [Forwarder (st_r s),
                (case url_Parse (GetProxyURL (proxy (st_p s))) of
                   Inl e \<Rightarrow> ServerErrorHandler (st_r s) e
                 | Inr u \<Rightarrow>
                     ServeHTTP u (call_request (last (calls (serveReverseProxy url_Parse proxy_ServeHTTP s)))))]"
  by (simp add: serveReverseProxy_def ErrorHandler_call_def Let_def split: sum.splits)

lemma serveReverseProxy_first_call:
  "take (Suc (length (calls s))) (calls (serveReverseProxy url_Parse proxy_ServeHTTP s))
     = calls s @ [Forwarder (st_r s)]"
  by (simp add: serveReverseProxy_def ErrorHandler_call_def Let_def split: sum.splits)

text \<open>The forwarder leaves the proxy instance alone, and both calls it makes carry the body
  as the request had it on entry.\<close>

lemma serveReverseProxy_frame:
  "st_p (serveReverseProxy url_Parse proxy_ServeHTTP s) = st_p s"
  by (simp add: serveReverseProxy_def ErrorHandler_call_def Let_def split: sum.splits)


lemma PathRequestProxyHandler_unset:
  "GetProxyURL (proxy (st_p s)) = [] \<Longrightarrow>
   PathRequestProxyHandler url_Parse proxy_ServeHTTP path s =
     s\<lparr>calls := calls s @
        [ServerErrorHandler (st_r s) (ErrorsNew ''ProxyURL needs to be set for PathRequestProxyHandler'')]\<rparr>"
  by (simp add: PathRequestProxyHandler_def ErrorHandler_call_def)

lemma PathRequestProxyHandler_set:
  "GetProxyURL (proxy (st_p s)) \<noteq> [] \<Longrightarrow>
   PathRequestProxyHandler url_Parse proxy_ServeHTTP path s =
     serveReverseProxy url_Parse proxy_ServeHTTP
       (s\<lparr>st_r := (st_r s)\<lparr>r_URL := (r_URL (st_r s))\<lparr>Path := strings_TrimPrefix (Path (r_URL (st_r s))) path\<rparr>\<rparr>\<rparr>)"
  by (simp add: PathRequestProxyHandler_def Let_def)


lemma checkValid_body_truncated: "checkValid body_truncated = Some (SyntaxError UnexpectedEnd 24)"
  unfolding body_truncated_def by code_simp

lemma checkValid_body_empty_object: "checkValid body_empty_object = None"
  unfolding body_empty_object_def by code_simp

lemma json_value_body_empty_object: "json_value body_empty_object = Some (JObject [])"
  unfolding body_empty_object_def by code_simp

text \<open>The two bodies of \<^verbatim>\<open>TestDecodeURLFromBody\<close>: the well-formed one sets the target;
  the one with the unterminated string gives ``unexpected end of JSON input'' and leaves
  the target as it was.\<close>

lemma json_Unmarshal_test_unmarshals:
  \<open>json_Unmarshal ''{"proxyURL":"127.0.0.1:8080"}'' rp = Some (None, rp\<lparr>URL := ''127.0.0.1:8080''\<rparr>)\<close>
  by code_simp

lemma json_Unmarshal_test_syntax_error:
  \<open>json_Unmarshal ''{"proxyURL":"127.0.0.1:8080}'' rp = Some (Some (SyntaxError UnexpectedEnd 28), rp)\<close>
  by code_simp

text \<open>Members that do not select the field leave the struct and the saved error alone.\<close>

lemma store_member_other:
  "\<forall>kv \<in> set kvs. \<not> field_matches (fst kv) \<Longrightarrow> foldl store_member acc kvs = acc"
  by (induction kvs arbitrary: acc) (simp_all add: store_member_def)

lemma json_Unmarshal_syntax_error:
  "checkValid data = Some e \<Longrightarrow> json_Unmarshal data rp = Some (Some e, rp)"
  by (simp add: json_Unmarshal_def)

lemma json_Unmarshal_field_absent:
  "checkValid data = None \<Longrightarrow> json_value data = Some (JObject kvs) \<Longrightarrow>
   \<forall>kv \<in> set kvs. \<not> field_matches (fst kv) \<Longrightarrow> json_Unmarshal data rp = Some (None, rp)"
  by (simp add: json_Unmarshal_def store_member_other)

lemma decodeURLFromBody_read_ok:
  assumes "fault (r_Body (st_r s)) = None"
    and "json_Unmarshal (unread (r_Body (st_r s))) (proxy (st_p s)) = Some (json_err, rp)"
  shows "decodeURLFromBody s =
           Some (json_err,
                 s\<lparr>st_p := (st_p s)\<lparr>proxy := rp\<rparr>,
                   st_r := (st_r s)\<lparr>r_Body := NopCloser_NewBuffer (unread (r_Body (st_r s)))\<rparr>\<rparr>)"
  using assms by (simp add: decodeURLFromBody_def ioutil_ReadAll_def Let_def)

lemma PayloadRequestProxyHandler_syntax_error:
  assumes "fault (r_Body (st_r s)) = None" and "checkValid (unread (r_Body (st_r s))) = Some e"
  shows "PayloadRequestProxyHandler url_Parse proxy_ServeHTTP s =
           (let r1 = (st_r s)\<lparr>r_Body := NopCloser_NewBuffer (unread (r_Body (st_r s)))\<rparr>
            in Some (s\<lparr>st_r := r1, calls := calls s @ [ServerErrorHandler r1 e]\<rparr>))"
proof -
  have "json_Unmarshal (unread (r_Body (st_r s))) (proxy (st_p s)) = Some (Some e, proxy (st_p s))"
    using assms(2) by (rule json_Unmarshal_syntax_error)
  from decodeURLFromBody_read_ok [OF assms(1) this]
  show ?thesis by (simp add: PayloadRequestProxyHandler_def ErrorHandler_call_def Let_def)
qed

text \<open>The test requests carry their body unread, so restoring it gives the same request.\<close>

lemma test_request_restored:
  "(test_request path content)\<lparr>r_Body := NopCloser_NewBuffer content\<rparr> = test_request path content"
  by (simp add: test_request_def NopCloser_NewBuffer_def)

lemma test_state_simps:
  "st_p (test_state target req) = New target"
  "st_r (test_state target req) = req"
  "calls (test_state target req) = []"
  "GetProxyURL (proxy (New target)) = target"
  by (simp_all add: test_state_def New_def GetProxyURL_def)

lemma test_request_simps:
  "Path (r_URL (test_request path content)) = path"
  "r_Host (test_request path content) = ''example.com''"
  "r_Header (test_request path content) = Map.empty"
  "unread (r_Body (test_request path content)) = content"
  "fault (r_Body (test_request path content)) = None"
  by (simp_all add: test_request_def)

subsection \<open>The target resolver\<close>

text \<open>
  C8. For every string \<open>v\<close>, the empty one included, \<open>SetProxyURL v\<close> followed by
  \<open>GetProxyURL\<close> returns \<open>v\<close>; the call changes nothing but the stored URL and has no
  error result; and the instance \<open>New t\<close> returns \<open>t\<close> from \<open>GetProxyURL\<close> at once.
\<close>

theorem SetProxyURL_then_GetProxyURL:
  "GetProxyURL (SetProxyURL rp v) = v \<and>
   SetProxyURL rp v = rp\<lparr>URL := v\<rparr> \<and>
   GetProxyURL (proxy (New t)) = t"
  by (simp add: GetProxyURL_def SetProxyURL_def New_def)

subsection \<open>The path-mode handler\<close>

text \<open>
  C1. With a non-empty target: if the path of the request is \<open>P @ rest\<close>, the handler
  is the forwarder run on the request with path \<open>rest\<close> (one leading \<open>P\<close> removed, whatever
  \<open>rest\<close> starts with), and the call it adds first is the forwarder's, with that request;
  if the path does not start with \<open>P\<close>, the handler is the forwarder run on the request as
  it came, and reports no error of its own.
\<close>

theorem PathRequestProxyHandler_trims_prefix:
  assumes "GetProxyURL (proxy (st_p s)) \<noteq> []"
  shows "(\<forall>rest. Path (r_URL (st_r s)) = P @ rest \<longrightarrow>
            (let r' = (st_r s)\<lparr>r_URL := (r_URL (st_r s))\<lparr>Path := rest\<rparr>\<rparr> in
               PathRequestProxyHandler url_Parse proxy_ServeHTTP P s = serveReverseProxy url_Parse proxy_ServeHTTP (s\<lparr>st_r := r'\<rparr>) \<and>
               take (Suc (length (calls s))) (calls (PathRequestProxyHandler url_Parse proxy_ServeHTTP P s))
                 = calls s @ [Forwarder r']))
       \<and> (\<not> prefix P (Path (r_URL (st_r s))) \<longrightarrow>
               PathRequestProxyHandler url_Parse proxy_ServeHTTP P s = serveReverseProxy url_Parse proxy_ServeHTTP s \<and>
               take (Suc (length (calls s))) (calls (PathRequestProxyHandler url_Parse proxy_ServeHTTP P s))
                 = calls s @ [Forwarder (st_r s)])"
proof (intro conjI allI impI)
  fix rest assume pth: "Path (r_URL (st_r s)) = P @ rest"
  let ?r = "(st_r s)\<lparr>r_URL := (r_URL (st_r s))\<lparr>Path := rest\<rparr>\<rparr>"
  have eq: "PathRequestProxyHandler url_Parse proxy_ServeHTTP P s = serveReverseProxy url_Parse proxy_ServeHTTP (s\<lparr>st_r := ?r\<rparr>)"
    using assms pth by (simp add: PathRequestProxyHandler_set strings_TrimPrefix_append)
  have "take (Suc (length (calls s))) (calls (PathRequestProxyHandler url_Parse proxy_ServeHTTP P s))
          = calls s @ [Forwarder ?r]"
    unfolding eq using serveReverseProxy_first_call [of "s\<lparr>st_r := ?r\<rparr>" url_Parse proxy_ServeHTTP] by simp
  with eq show "let r' = ?r in
       PathRequestProxyHandler url_Parse proxy_ServeHTTP P s = serveReverseProxy url_Parse proxy_ServeHTTP (s\<lparr>st_r := r'\<rparr>) \<and>
       take (Suc (length (calls s))) (calls (PathRequestProxyHandler url_Parse proxy_ServeHTTP P s))
         = calls s @ [Forwarder r']"
    by (simp add: Let_def)
next
  assume np: "\<not> prefix P (Path (r_URL (st_r s)))"
  show eq: "PathRequestProxyHandler url_Parse proxy_ServeHTTP P s = serveReverseProxy url_Parse proxy_ServeHTTP s"
    using assms np by (simp add: PathRequestProxyHandler_set strings_TrimPrefix_other)
  show "take (Suc (length (calls s))) (calls (PathRequestProxyHandler url_Parse proxy_ServeHTTP P s))
          = calls s @ [Forwarder (st_r s)]"
    unfolding eq by (rule serveReverseProxy_first_call)
qed

theorem PathRequestProxyHandler_trims_prefix_witness:
  "GetProxyURL (proxy (st_p (test_state ''http://h:1'' (test_request ''/forward/forward/api'' [])))) \<noteq> [] \<and>
   Path (r_URL (st_r (test_state ''http://h:1'' (test_request ''/forward/forward/api'' []))))
     = ''/forward'' @ ''/forward/api'' \<and>
   take 1 (calls (PathRequestProxyHandler test_url_Parse ServeHTTP_sends_body ''/forward''
                    (test_state ''http://h:1'' (test_request ''/forward/forward/api'' []))))
     = [Forwarder (test_request ''/forward/api'' [])] \<and>
   map is_ServerErrorHandler
       (calls (PathRequestProxyHandler test_url_Parse ServeHTTP_sends_body ''/forward''
                 (test_state ''http://h:1'' (test_request ''/forward/forward/api'' []))))
     = [False, False] \<and>
   \<not> prefix ''/forward'' (Path (r_URL (st_r (test_state ''http://h:1'' (test_request ''/api'' []))))) \<and>
   take 1 (calls (PathRequestProxyHandler test_url_Parse ServeHTTP_sends_body ''/forward''
                    (test_state ''http://h:1'' (test_request ''/api'' []))))
     = [Forwarder (test_request ''/api'' [])] \<and>
   map is_ServerErrorHandler
       (calls (PathRequestProxyHandler test_url_Parse ServeHTTP_sends_body ''/forward''
                 (test_state ''http://h:1'' (test_request ''/api'' []))))
     = [False, False]"
proof -
  let ?S1 = "test_state ''http://h:1'' (test_request ''/forward/forward/api'' [])"
  let ?S2 = "test_state ''http://h:1'' (test_request ''/api'' [])"
  let ?H1 = "PathRequestProxyHandler test_url_Parse ServeHTTP_sends_body ''/forward'' ?S1"
  let ?H2 = "PathRequestProxyHandler test_url_Parse ServeHTTP_sends_body ''/forward'' ?S2"
  have a1: "GetProxyURL (proxy (st_p ?S1)) \<noteq> []" by (simp add: test_state_simps)
  have a2: "GetProxyURL (proxy (st_p ?S2)) \<noteq> []" by (simp add: test_state_simps)
  have b1: "Path (r_URL (st_r ?S1)) = ''/forward'' @ ''/forward/api''"
    by (simp add: test_state_simps test_request_simps)
  have b2: "\<not> prefix ''/forward'' (Path (r_URL (st_r ?S2)))"
    by (simp add: test_state_simps test_request_simps)
  note t1 = PathRequestProxyHandler_trims_prefix [OF a1, of "''/forward''" test_url_Parse
      ServeHTTP_sends_body, THEN conjunct1, THEN spec, of "''/forward/api''", THEN mp, OF b1,
      unfolded Let_def]
  note t2 = PathRequestProxyHandler_trims_prefix [OF a2, of "''/forward''" test_url_Parse
      ServeHTTP_sends_body, THEN conjunct2, THEN mp, OF b2]
  from t1 [THEN conjunct2]
  have c1: "take 1 (calls ?H1) = [Forwarder (test_request ''/forward/api'' [])]"
    by (simp add: test_state_def test_request_def)
  have d1: "map is_ServerErrorHandler (calls ?H1) = [False, False]"
    unfolding t1 [THEN conjunct1]
    by (subst serveReverseProxy_calls) (simp add: test_state_simps test_url_Parse_def)
  from t2 [THEN conjunct2]
  have c2: "take 1 (calls ?H2) = [Forwarder (test_request ''/api'' [])]"
    by (simp add: test_state_simps)
  have d2: "map is_ServerErrorHandler (calls ?H2) = [False, False]"
    unfolding t2 [THEN conjunct1]
    by (subst serveReverseProxy_calls) (simp add: test_state_simps test_url_Parse_def)
  from a1 b1 c1 d1 b2 c2 d2 show ?thesis by blast
qed

text \<open>
  C5. While the stored target is empty, the path-mode handler adds exactly one call, to the
  error handler, with the error ``ProxyURL needs to be set for PathRequestProxyHandler'';
  it makes no call to the forwarder, and the proxy instance is as before.
\<close>

theorem PathRequestProxyHandler_unset_reports_error:
  assumes "GetProxyURL (proxy (st_p s)) = []"
  shows "calls (PathRequestProxyHandler url_Parse proxy_ServeHTTP path s) =
           calls s @ [ServerErrorHandler (st_r s)
                        (ErrorsNew ''ProxyURL needs to be set for PathRequestProxyHandler'')]
         \<and> st_p (PathRequestProxyHandler url_Parse proxy_ServeHTTP path s) = st_p s"
  using assms by (simp add: PathRequestProxyHandler_unset)

theorem PathRequestProxyHandler_unset_reports_error_witness:
  "GetProxyURL (proxy (st_p (test_state [] (test_request ''/forward/api'' [])))) = [] \<and>
   calls (PathRequestProxyHandler test_url_Parse ServeHTTP_sends_body [] (test_state [] (test_request ''/forward/api'' [])))
     = [ServerErrorHandler (test_request ''/forward/api'' [])
          (ErrorsNew ''ProxyURL needs to be set for PathRequestProxyHandler'')] \<and>
   st_p (PathRequestProxyHandler test_url_Parse ServeHTTP_sends_body [] (test_state [] (test_request ''/forward/api'' [])))
     = New []"
proof -
  have a: "GetProxyURL (proxy (st_p (test_state [] (test_request ''/forward/api'' [])))) = []"
    by (simp add: test_state_simps)
  from a PathRequestProxyHandler_unset_reports_error [OF a, of test_url_Parse ServeHTTP_sends_body "[]"]
  show ?thesis by (simp add: test_state_simps)
qed

text \<open>
  C9. While the stored target is empty, the path-mode handler leaves the path of the
  request, and the request as a whole, as it was: the prefix is not trimmed.
\<close>

theorem PathRequestProxyHandler_unset_keeps_path:
  assumes "GetProxyURL (proxy (st_p s)) = []"
  shows "Path (r_URL (st_r (PathRequestProxyHandler url_Parse proxy_ServeHTTP path s))) = Path (r_URL (st_r s))
         \<and> st_r (PathRequestProxyHandler url_Parse proxy_ServeHTTP path s) = st_r s"
  using assms by (simp add: PathRequestProxyHandler_unset)

theorem PathRequestProxyHandler_unset_keeps_path_witness:
  "GetProxyURL (proxy (st_p (test_state [] (test_request ''/forward/api'' [])))) = [] \<and>
   Path (r_URL (st_r (PathRequestProxyHandler test_url_Parse ServeHTTP_sends_body ''/forward''
                        (test_state [] (test_request ''/forward/api'' []))))) = ''/forward/api''"
proof -
  have a: "GetProxyURL (proxy (st_p (test_state [] (test_request ''/forward/api'' [])))) = []"
    by (simp add: test_state_simps)
  from a PathRequestProxyHandler_unset_keeps_path [OF a, of test_url_Parse ServeHTTP_sends_body "''/forward''"]
  show ?thesis by (simp add: test_state_simps test_request_simps)
qed

subsection \<open>The forwarder\<close>

text \<open>
  C2. If the stored target parses to \<open>u\<close>, the forwarder hands the reverse proxy for \<open>u\<close> a
  request whose URL host and scheme are those of \<open>u\<close>, whose \<^verbatim>\<open>X-Forwarded-Host\<close> header
  is the value of the inbound \<^verbatim>\<open>Host\<close> header (empty if there is none), and whose host
  field is the host of \<open>u\<close>; the request the forwarder leaves is that request with the body
  as the reverse proxy left it, so it has the same four values. The witness is the example
  of the specification: target \<^verbatim>\<open>https://127.0.0.1:8080\<close>, inbound host header
  \<^verbatim>\<open>127.0.0.1:8080\<close>.
\<close>

theorem serveReverseProxy_rewrites_request:
  assumes "url_Parse (GetProxyURL (proxy (st_p s))) = Inr u"
  shows "(let s' = serveReverseProxy url_Parse proxy_ServeHTTP s;
              r' = st_r s';
              handed = call_request (last (calls s')) in
           calls s' = calls s @ [Forwarder (st_r s), ServeHTTP u handed] \<and>
           r' = handed\<lparr>r_Body := proxy_ServeHTTP u handed\<rparr> \<and>
           r_Body handed = r_Body (st_r s) \<and>
           Host (r_URL handed) = Host u \<and>
           Scheme (r_URL handed) = Scheme u \<and>
           Header_Get (r_Header handed) ''X-Forwarded-Host'' = Header_Get (r_Header (st_r s)) ''Host'' \<and>
           r_Host handed = Host u \<and>
           Host (r_URL r') = Host u \<and>
           Scheme (r_URL r') = Scheme u \<and>
           Header_Get (r_Header r') ''X-Forwarded-Host'' = Header_Get (r_Header (st_r s)) ''Host'' \<and>
           Header_Get (r_Header (st_r s)) ''Host'' =
             (case r_Header (st_r s) ''Host'' of
                None \<Rightarrow> []
              | Some vs \<Rightarrow> (case vs of [] \<Rightarrow> [] | v # _ \<Rightarrow> v)) \<and>
           r_Host r' = Host u)"
  using assms
  by (simp add: serveReverseProxy_def Let_def Header_Get_def Header_Set_def
           split: option.splits list.splits)

theorem serveReverseProxy_rewrites_request_witness:
  "test_url_Parse (GetProxyURL (proxy (st_p (test_state ''https://127.0.0.1:8080''
      ((test_request ''/'' [])\<lparr>r_Header := [''Host'' \<mapsto> [''127.0.0.1:8080'']]\<rparr>)))))
     = Inr \<lparr>Scheme = ''https'', Host = ''127.0.0.1:8080'', Path = []\<rparr> \<and>
   map is_ServeHTTP (calls (serveReverseProxy test_url_Parse ServeHTTP_sends_body
      (test_state ''https://127.0.0.1:8080''
      ((test_request ''/'' [])\<lparr>r_Header := [''Host'' \<mapsto> [''127.0.0.1:8080'']]\<rparr>))))
     = [False, True] \<and>
   Host (r_URL (call_request (last (calls (serveReverseProxy test_url_Parse ServeHTTP_sends_body
      (test_state ''https://127.0.0.1:8080''
      ((test_request ''/'' [])\<lparr>r_Header := [''Host'' \<mapsto> [''127.0.0.1:8080'']]\<rparr>)))))))
     = ''127.0.0.1:8080'' \<and>
   Scheme (r_URL (call_request (last (calls (serveReverseProxy test_url_Parse ServeHTTP_sends_body
      (test_state ''https://127.0.0.1:8080''
      ((test_request ''/'' [])\<lparr>r_Header := [''Host'' \<mapsto> [''127.0.0.1:8080'']]\<rparr>)))))))
     = ''https'' \<and>
   Header_Get (r_Header (call_request (last (calls (serveReverseProxy test_url_Parse ServeHTTP_sends_body
      (test_state ''https://127.0.0.1:8080''
      ((test_request ''/'' [])\<lparr>r_Header := [''Host'' \<mapsto> [''127.0.0.1:8080'']]\<rparr>)))))))
      ''X-Forwarded-Host''
     = ''127.0.0.1:8080'' \<and>
   r_Host (call_request (last (calls (serveReverseProxy test_url_Parse ServeHTTP_sends_body
      (test_state ''https://127.0.0.1:8080''
      ((test_request ''/'' [])\<lparr>r_Header := [''Host'' \<mapsto> [''127.0.0.1:8080'']]\<rparr>))))))
     = ''127.0.0.1:8080'' \<and>
   Host (r_URL (st_r (serveReverseProxy test_url_Parse ServeHTTP_sends_body
      (test_state ''https://127.0.0.1:8080''
      ((test_request ''/'' [])\<lparr>r_Header := [''Host'' \<mapsto> [''127.0.0.1:8080'']]\<rparr>)))))
     = ''127.0.0.1:8080'' \<and>
   Scheme (r_URL (st_r (serveReverseProxy test_url_Parse ServeHTTP_sends_body
      (test_state ''https://127.0.0.1:8080''
      ((test_request ''/'' [])\<lparr>r_Header := [''Host'' \<mapsto> [''127.0.0.1:8080'']]\<rparr>)))))
     = ''https'' \<and>
   Header_Get (r_Header (st_r (serveReverseProxy test_url_Parse ServeHTTP_sends_body
      (test_state ''https://127.0.0.1:8080''
      ((test_request ''/'' [])\<lparr>r_Header := [''Host'' \<mapsto> [''127.0.0.1:8080'']]\<rparr>)))))
      ''X-Forwarded-Host''
     = ''127.0.0.1:8080'' \<and>
   r_Host (st_r (serveReverseProxy test_url_Parse ServeHTTP_sends_body
      (test_state ''https://127.0.0.1:8080''
      ((test_request ''/'' [])\<lparr>r_Header := [''Host'' \<mapsto> [''127.0.0.1:8080'']]\<rparr>))))
     = ''127.0.0.1:8080''"
proof -
  let ?S = "test_state ''https://127.0.0.1:8080''
              ((test_request ''/'' [])\<lparr>r_Header := [''Host'' \<mapsto> [''127.0.0.1:8080'']]\<rparr>)"
  have a: "test_url_Parse (GetProxyURL (proxy (st_p ?S)))
             = Inr \<lparr>Scheme = ''https'', Host = ''127.0.0.1:8080'', Path = []\<rparr>"
    by (simp add: test_state_simps test_url_Parse_def)
  have h: "Header_Get (r_Header (st_r ?S)) ''Host'' = ''127.0.0.1:8080''"
    by (simp add: test_state_simps Header_Get_def)
  note t = serveReverseProxy_rewrites_request
    [of test_url_Parse ?S "\<lparr>Scheme = ''https'', Host = ''127.0.0.1:8080'', Path = []\<rparr>"
        ServeHTTP_sends_body, OF a, unfolded Let_def]
  have c: "map is_ServeHTTP (calls (serveReverseProxy test_url_Parse ServeHTTP_sends_body ?S))
             = [False, True]"
    by (subst t [THEN conjunct1]) (simp add: test_state_simps)
  from a h c t [THEN conjunct2] show ?thesis by simp
qed

text \<open>
  C7. If the stored target fails to parse, the forwarder adds exactly one call to the error
  handler, with the parse error; it does not call the reverse proxy; and the request and the
  proxy instance are as they were.
\<close>

theorem serveReverseProxy_parse_failure:
  assumes "url_Parse (GetProxyURL (proxy (st_p s))) = Inl err"
  shows "serveReverseProxy url_Parse proxy_ServeHTTP s =
           s\<lparr>calls := calls s @ [Forwarder (st_r s), ServerErrorHandler (st_r s) err]\<rparr>"
  using assms by (simp add: serveReverseProxy_def Let_def ErrorHandler_call_def)

theorem serveReverseProxy_parse_failure_witness:
  "test_url_Parse (GetProxyURL (proxy (st_p (test_state bad_target (test_request ''/'' [])))))
     = Inl (URLError bad_target) \<and>
   serveReverseProxy test_url_Parse ServeHTTP_sends_body (test_state bad_target (test_request ''/'' []))
     = \<lparr>st_p = New bad_target, st_r = test_request ''/'' [],
        calls = [Forwarder (test_request ''/'' []),
                 ServerErrorHandler (test_request ''/'' []) (URLError bad_target)]\<rparr>"
proof -
  have a: "test_url_Parse (GetProxyURL (proxy (st_p (test_state bad_target (test_request ''/'' [])))))
             = Inl (URLError bad_target)"
    by (simp add: test_state_simps test_url_Parse_def bad_target_def)
  from a serveReverseProxy_parse_failure
    [of test_url_Parse "test_state bad_target (test_request ''/'' [])" "URLError bad_target"
        ServeHTTP_sends_body, OF a]
  show ?thesis by (simp add: test_state_def)
qed

subsection \<open>The payload-mode handler\<close>




text \<open>
  C4. For a body that is a JSON object without the field, the handler is to report the
  target as unconfigured and not to forward. The handler tests the stored target, not the
  field of this body, so it does so only if the stored target was empty before the request:
  with an empty target the body \<^verbatim>\<open>{}\<close> gives exactly the one call to the error handler,
  with ``ProxyURL needs to be set in request body at proxyURL field''; with the target
  \<^verbatim>\<open>http://h:1\<close> stored beforehand, the same body is forwarded to that target and the error
  handler is not called.
\<close>

theorem PayloadRequestProxyHandler_stale_target_forwarded:
  "PayloadRequestProxyHandler test_url_Parse ServeHTTP_sends_body
     (test_state [] (test_request ''/forward/api'' body_empty_object))
     = Some \<lparr>st_p = New [], st_r = test_request ''/forward/api'' body_empty_object,
             calls = [ServerErrorHandler (test_request ''/forward/api'' body_empty_object)
                        (ErrorsNew ''ProxyURL needs to be set in request body at proxyURL field'')]\<rparr> \<and>
   map_option (GetProxyURL \<circ> proxy \<circ> st_p)
     (PayloadRequestProxyHandler test_url_Parse ServeHTTP_sends_body
        (test_state ''http://h:1'' (test_request ''/forward/api'' body_empty_object)))
     = Some ''http://h:1'' \<and>
   map_option (filter is_Forwarder \<circ> calls)
     (PayloadRequestProxyHandler test_url_Parse ServeHTTP_sends_body
        (test_state ''http://h:1'' (test_request ''/forward/api'' body_empty_object)))
     = Some [Forwarder (test_request ''/forward/api'' body_empty_object)] \<and>
   map_option (map is_ServeHTTP \<circ> calls)
     (PayloadRequestProxyHandler test_url_Parse ServeHTTP_sends_body
        (test_state ''http://h:1'' (test_request ''/forward/api'' body_empty_object)))
     = Some [False, True] \<and>
   map_option (filter is_ServerErrorHandler \<circ> calls)
     (PayloadRequestProxyHandler test_url_Parse ServeHTTP_sends_body
        (test_state ''http://h:1'' (test_request ''/forward/api'' body_empty_object)))
     = Some []"
proof -
  let ?E = "test_state [] (test_request ''/forward/api'' body_empty_object)"
  let ?S = "test_state ''http://h:1'' (test_request ''/forward/api'' body_empty_object)"
  have um: "json_Unmarshal body_empty_object rp = Some (None, rp)" for rp
    by (rule json_Unmarshal_field_absent [where kvs = "[]"])
       (simp_all add: checkValid_body_empty_object json_value_body_empty_object)
  have fE: "fault (r_Body (st_r ?E)) = None" by (simp add: test_state_simps test_request_simps)
  have fS: "fault (r_Body (st_r ?S)) = None" by (simp add: test_state_simps test_request_simps)
  have umE: "json_Unmarshal (unread (r_Body (st_r ?E))) (proxy (st_p ?E)) = Some (None, proxy (st_p ?E))"
    by (simp add: test_state_simps test_request_simps um)
  have umS: "json_Unmarshal (unread (r_Body (st_r ?S))) (proxy (st_p ?S)) = Some (None, proxy (st_p ?S))"
    by (simp add: test_state_simps test_request_simps um)
  from decodeURLFromBody_read_ok [OF fE umE]
  have e: "PayloadRequestProxyHandler test_url_Parse ServeHTTP_sends_body ?E
     = Some \<lparr>st_p = New [], st_r = test_request ''/forward/api'' body_empty_object,
             calls = [ServerErrorHandler (test_request ''/forward/api'' body_empty_object)
                        (ErrorsNew ''ProxyURL needs to be set in request body at proxyURL field'')]\<rparr>"
    by (simp add: PayloadRequestProxyHandler_def ErrorHandler_call_def test_state_def
          test_request_simps test_request_restored New_def GetProxyURL_def)
  from decodeURLFromBody_read_ok [OF fS umS]
  have s: "PayloadRequestProxyHandler test_url_Parse ServeHTTP_sends_body ?S
     = Some (serveReverseProxy test_url_Parse ServeHTTP_sends_body ?S)"
    by (simp add: PayloadRequestProxyHandler_def test_state_def test_request_simps
          test_request_restored New_def GetProxyURL_def)
  have c: "calls (serveReverseProxy test_url_Parse ServeHTTP_sends_body ?S)
             = [Forwarder (test_request ''/forward/api'' body_empty_object),
                ServeHTTP \<lparr>Scheme = ''http'', Host = ''h:1'', Path = []\<rparr>
                  (call_request (last (calls (serveReverseProxy test_url_Parse ServeHTTP_sends_body ?S))))]"
    by (subst serveReverseProxy_calls) (simp add: test_state_simps test_url_Parse_def)
  have t: "GetProxyURL (proxy (st_p (serveReverseProxy test_url_Parse ServeHTTP_sends_body ?S))) = ''http://h:1''"
    by (simp add: serveReverseProxy_frame test_state_simps)
  have c1: "filter is_Forwarder (calls (serveReverseProxy test_url_Parse ServeHTTP_sends_body ?S))
              = [Forwarder (test_request ''/forward/api'' body_empty_object)]"
    by (subst c) simp
  have c2: "map is_ServeHTTP (calls (serveReverseProxy test_url_Parse ServeHTTP_sends_body ?S)) = [False, True]"
    by (subst c) simp
  have c3: "filter is_ServerErrorHandler (calls (serveReverseProxy test_url_Parse ServeHTTP_sends_body ?S)) = []"
    by (subst c) simp
  from e s t c1 c2 c3 show ?thesis by simp
qed

text \<open>
  C6. For a request whose body, read without a transport error, is not syntactically valid
  JSON (the scanner returns a syntax error \<open>e\<close>): the handler returns, having added exactly
  one call, to the error handler with \<open>e\<close>, and no call to the forwarder.
\<close>

theorem PayloadRequestProxyHandler_invalid_json_reports_error:
  assumes "fault (r_Body (st_r s)) = None" and "checkValid (unread (r_Body (st_r s))) = Some e"
  shows "map_option calls (PayloadRequestProxyHandler url_Parse proxy_ServeHTTP s) =
           Some (calls s @
             [ServerErrorHandler
                ((st_r s)\<lparr>r_Body := NopCloser_NewBuffer (unread (r_Body (st_r s)))\<rparr>) e])"
  using PayloadRequestProxyHandler_syntax_error [OF assms] by (simp add: Let_def)

theorem PayloadRequestProxyHandler_invalid_json_reports_error_witness:
  "fault (r_Body (st_r (test_state [] (test_request ''/forward/api'' body_truncated)))) = None \<and>
   checkValid (unread (r_Body (st_r (test_state [] (test_request ''/forward/api'' body_truncated)))))
     = Some (SyntaxError UnexpectedEnd 24) \<and>
   map_option calls
     (PayloadRequestProxyHandler test_url_Parse ServeHTTP_sends_body
        (test_state [] (test_request ''/forward/api'' body_truncated)))
     = Some [ServerErrorHandler (test_request ''/forward/api'' body_truncated)
               (SyntaxError UnexpectedEnd 24)]"
proof -
  let ?S = "test_state [] (test_request ''/forward/api'' body_truncated)"
  have a: "fault (r_Body (st_r ?S)) = None" by (simp add: test_state_simps test_request_simps)
  have b: "checkValid (unread (r_Body (st_r ?S))) = Some (SyntaxError UnexpectedEnd 24)"
    by (simp add: test_state_simps test_request_simps checkValid_body_truncated)
  from a b PayloadRequestProxyHandler_invalid_json_reports_error
    [OF a b, of test_url_Parse ServeHTTP_sends_body]
  show ?thesis by (simp add: test_state_simps test_request_simps test_request_restored)
qed

text \<open>
  C10. On that error path the proxy instance, and so the stored target, is as it was
  before the request, and the body of the request the handler leaves reads in full as the
  original bytes.
\<close>

theorem PayloadRequestProxyHandler_invalid_json_frame:
  assumes "fault (r_Body (st_r s)) = None" and "checkValid (unread (r_Body (st_r s))) = Some e"
  shows "map_option st_p (PayloadRequestProxyHandler url_Parse proxy_ServeHTTP s) = Some (st_p s) \<and>
         map_option (fst \<circ> ioutil_ReadAll \<circ> r_Body \<circ> st_r)
           (PayloadRequestProxyHandler url_Parse proxy_ServeHTTP s)
           = Some (unread (r_Body (st_r s)), None)"
  using PayloadRequestProxyHandler_syntax_error [OF assms] by (simp add: Let_def ReadAll_NopCloser)

theorem PayloadRequestProxyHandler_invalid_json_frame_witness:
  "fault (r_Body (st_r (test_state ''http://old:9'' (test_request ''/forward/api'' body_truncated)))) = None \<and>
   checkValid (unread (r_Body (st_r (test_state ''http://old:9'' (test_request ''/forward/api'' body_truncated)))))
     = Some (SyntaxError UnexpectedEnd 24) \<and>
   map_option st_p
     (PayloadRequestProxyHandler test_url_Parse ServeHTTP_sends_body
        (test_state ''http://old:9'' (test_request ''/forward/api'' body_truncated)))
     = Some (New ''http://old:9'') \<and>
   map_option (fst \<circ> ioutil_ReadAll \<circ> r_Body \<circ> st_r)
     (PayloadRequestProxyHandler test_url_Parse ServeHTTP_sends_body
        (test_state ''http://old:9'' (test_request ''/forward/api'' body_truncated)))
     = Some (body_truncated, None)"
proof -
  let ?S = "test_state ''http://old:9'' (test_request ''/forward/api'' body_truncated)"
  have a: "fault (r_Body (st_r ?S)) = None" by (simp add: test_state_simps test_request_simps)
  have b: "checkValid (unread (r_Body (st_r ?S))) = Some (SyntaxError UnexpectedEnd 24)"
    by (simp add: test_state_simps test_request_simps checkValid_body_truncated)
  from a b PayloadRequestProxyHandler_invalid_json_frame
    [OF a b, of test_url_Parse ServeHTTP_sends_body]
  show ?thesis by (simp add: test_state_simps test_request_simps)
qed

end
